theory Spec2Isabelle
  imports Main
begin

section \<open>Python values\<close>

text \<open>
  The client \<^verbatim>\<open>bwproject.py\<close> handles parsed JSON bodies, keyword dictionaries and
  strings. A JSON value is modelled as Python sees it after \<^verbatim>\<open>response.json()\<close>:
  \<^verbatim>\<open>None\<close>, a bool, an int, a str, a list or a dict. A dict is an association list in
  insertion order, each key listed once. Fractional numbers are outside the model.
\<close>

datatype json =
    JNull
  | JBool bool
  | JNum int
  | JStr string
  | JList "json list"
  | JObj "(string \<times> json) list"

type_synonym dict = "(string \<times> json) list"

text \<open>
  Every exception the module raises itself is a \<^verbatim>\<open>KeyError\<close>; the constructor's
  arguments tell them apart. A subscript with a missing key raises \<^verbatim>\<open>KeyError(key)\<close>.
  \<^verbatim>\<open>ValueError\<close> stands for the \<^verbatim>\<open>UnicodeDecodeError\<close> of reading a file that is not
  text.
\<close>

datatype error =
    KeyError "json list"
  | TypeError
  | AttributeError string
  | ValueError

definition TAB :: char where
  "TAB = CHR 0x09"

definition LF :: char where
  "LF = CHR 0x0A"

definition CR :: char where
  "CR = CHR 0x0D"

text \<open>Truth value of a Python object, as \<^verbatim>\<open>if x:\<close> and \<^verbatim>\<open>x and y\<close> test it.\<close>

fun truthy :: "json \<Rightarrow> bool" where
  "truthy JNull = False"
| "truthy (JBool b) = b"
| "truthy (JNum n) = (n \<noteq> 0)"
| "truthy (JStr s) = (s \<noteq> [])"
| "truthy (JList xs) = (xs \<noteq> [])"
| "truthy (JObj kvs) = (kvs \<noteq> [])"

fun starts_with :: "string \<Rightarrow> string \<Rightarrow> bool" where
  "starts_with [] s = True"
| "starts_with (k # ks) [] = False"
| "starts_with (k # ks) (c # cs) = (k = c \<and> starts_with ks cs)"

fun substring :: "string \<Rightarrow> string \<Rightarrow> bool" where
  "substring k [] = (k = [])"
| "substring k (c # cs) = (starts_with k (c # cs) \<or> substring k cs)"

text \<open>
  \<^verbatim>\<open>k in x\<close> for a string \<open>k\<close>: key membership on a dict, element membership on a
  list, substring test on a str, \<^verbatim>\<open>TypeError\<close> on anything else.
\<close>

fun py_in :: "string \<Rightarrow> json \<Rightarrow> error + bool" where
  "py_in k (JObj kvs) = Inr (map_of kvs k \<noteq> None)"
| "py_in k (JList xs) = Inr (JStr k \<in> set xs)"
| "py_in k (JStr s) = Inr (substring k s)"
| "py_in k JNull = Inl TypeError"
| "py_in k (JBool b) = Inl TypeError"
| "py_in k (JNum n) = Inl TypeError"

text \<open>\<^verbatim>\<open>x[k]\<close> for a string \<open>k\<close>: only a dict can be subscripted by a string.\<close>

fun py_getitem :: "json \<Rightarrow> string \<Rightarrow> error + json" where
  "py_getitem (JObj kvs) k =
     (case map_of kvs k of None \<Rightarrow> Inl (KeyError [JStr k]) | Some v \<Rightarrow> Inr v)"
| "py_getitem JNull k = Inl TypeError"
| "py_getitem (JBool b) k = Inl TypeError"
| "py_getitem (JNum n) k = Inl TypeError"
| "py_getitem (JStr s) k = Inl TypeError"
| "py_getitem (JList xs) k = Inl TypeError"

text \<open>
  \<^verbatim>\<open>d[k] = v\<close>: an existing key keeps its place and gets the new value, a new key is
  appended.
\<close>

fun dict_set :: "'k \<Rightarrow> 'v \<Rightarrow> ('k \<times> 'v) list \<Rightarrow> ('k \<times> 'v) list" where
  "dict_set k v [] = [(k, v)]"
| "dict_set k v (p # d) = (if fst p = k then (fst p, v) # d else p # dict_set k v d)"

text \<open>\<^verbatim>\<open>dict(pairs)\<close>: the pairs are inserted from left to right.\<close>

definition dict_of :: "('k \<times> 'v) list \<Rightarrow> ('k \<times> 'v) list" where
  "dict_of pairs = foldl (\<lambda>d kv. dict_set (fst kv) (snd kv) d) [] pairs"

text \<open>\<^verbatim>\<open>s.split(sep)\<close> with a one-character separator, and \<^verbatim>\<open>sep.join(xs)\<close>.\<close>

fun str_split :: "char \<Rightarrow> string \<Rightarrow> string list" where
  "str_split sep [] = [[]]"
| "str_split sep (c # cs) =
     (if c = sep then [] # str_split sep cs
      else (case str_split sep cs of
              [] \<Rightarrow> [[c]]
            | w # ws \<Rightarrow> (c # w) # ws))"

fun str_join :: "string \<Rightarrow> string list \<Rightarrow> string" where
  "str_join sep [] = []"
| "str_join sep [x] = x"
| "str_join sep (x # y # ys) = x @ sep @ str_join sep (y # ys)"

text \<open>
  Mode \<^verbatim>\<open>"rU"\<close> reads with universal newlines: \<^verbatim>\<open>\r\n\<close> and a lone \<^verbatim>\<open>\r\<close> arrive
  as \<^verbatim>\<open>\n\<close>. (The mode is accepted up to Python 3.10, which the model follows.)
\<close>

fun universal_newlines :: "string \<Rightarrow> string" where
  "universal_newlines [] = []"
| "universal_newlines [c] = (if c = CR then [LF] else [c])"
| "universal_newlines (c # d # cs) =
     (if c = CR \<and> d = LF then LF # universal_newlines cs
      else if c = CR then LF # universal_newlines (d # cs)
      else c # universal_newlines (d # cs))"

section \<open>The world outside the program\<close>

text \<open>
  An HTTP request as handed to \<^verbatim>\<open>requests\<close>: \<open>data\<close> is \<open>None\<close> when no \<^verbatim>\<open>data=\<close>
  argument is passed, \<open>headers\<close> is empty when no \<^verbatim>\<open>headers=\<close> argument is passed.
\<close>

datatype verb = GET | POST | PUT | PATCH | DELETE

record request =
  verb :: verb
  url :: string
  params :: dict
  data :: "json option"
  headers :: "(string \<times> string) list"

text \<open>
  The server is a function from the request to the parsed JSON body of its response.
  Connection failures and bodies that are not JSON are outside the model.
\<close>

type_synonym net = "request \<Rightarrow> json"

text \<open>
  A file is text, or bytes that do not decode (reading raises \<^verbatim>\<open>UnicodeDecodeError\<close>,
  a \<^verbatim>\<open>ValueError\<close>). A path with no file cannot be opened for reading
  (\<^verbatim>\<open>IOError\<close>). Opening for writing always succeeds and text is written as it is
  (POSIX newlines).
\<close>

datatype file_content = Text string | Undecodable

text \<open>
  The parameter defaults \<^verbatim>\<open>params = {}\<close> are dict objects created once, when the
  function is defined, and shared by every call that omits the argument. Each is an
  address of the store; \<open>Obj n\<close> are the dicts allocated while the program runs. The
  defaults \<^verbatim>\<open>data = {}\<close> are never mutated, so \<open>data\<close> is passed by value.
\<close>

datatype ref =
    Request_params
  | Bare_request_params
  | Get_params
  | Delete_params
  | Post_params
  | Put_params
  | Patch_params
  | Obj nat

datatype event =
    Sleep
  | Send request
  | Print_json json
  | Print_url string dict
  | Open_read string
  | Open_write string
  | Write string string

record world =
  files :: "string \<Rightarrow> file_content option"
  heap :: "ref \<Rightarrow> dict"
  next_obj :: nat
  trace :: "event list"

definition emit :: "event \<Rightarrow> world \<Rightarrow> world" where
  "emit e w = w\<lparr>trace := trace w @ [e]\<rparr>"

text \<open>\<^verbatim>\<open>open(path, "w")\<close> truncates the file; \<^verbatim>\<open>write\<close> then stores the text.\<close>

definition open_write :: "string \<Rightarrow> world \<Rightarrow> world" where
  "open_write path w = emit (Open_write path) (w\<lparr>files := (files w)(path \<mapsto> Text [])\<rparr>)"

definition write_file :: "string \<Rightarrow> string \<Rightarrow> world \<Rightarrow> world" where
  "write_file path s w = emit (Write path s) (w\<lparr>files := (files w)(path \<mapsto> Text s)\<rparr>)"

definition alloc :: "dict \<Rightarrow> world \<Rightarrow> ref \<times> world" where
  "alloc d w =
     (Obj (next_obj w), w\<lparr>heap := (heap w)(Obj (next_obj w) := d), next_obj := Suc (next_obj w)\<rparr>)"

section \<open>BWUser\<close>

text \<open>
  One record for the attributes of \<^verbatim>\<open>BWUser\<close> and of its subclass \<^verbatim>\<open>BWProject\<close>.
  \<open>console_report\<close> is \<open>None\<close> while the attribute does not exist: only
  \<^verbatim>\<open>BWProject.__init__\<close> sets it. The three project attributes are read by
  \<^verbatim>\<open>BWProject\<close> methods only; on a plain \<^verbatim>\<open>BWUser\<close> they hold placeholders.
\<close>

record session =
  apiurl :: string
  oauthpath :: string
  username :: string
  password :: string
  token :: string
  console_report :: "bool option"
  project_name :: string
  project_id :: json
  project_address :: string

definition auth_request :: "session \<Rightarrow> request" where
  "auth_request self =
     \<lparr>verb = GET,
      url = apiurl self @ oauthpath self,
      params = [(''username'', JStr (username self)),
                (''password'', JStr (password self)),
                (''grant_type'', JStr ''api-password''),
                (''client_id'', JStr ''brandwatch-api-client'')],
      data = None,
      headers = []\<rparr>"

text \<open>
  \<^verbatim>\<open>getAccessToken\<close> (lines 178-191). The \<^verbatim>\<open>else\<close> belongs to the outer \<^verbatim>\<open>if\<close>: when the
  key is there and its value is \<^verbatim>\<open>None\<close>, control falls off the end of the function,
  which returns \<^verbatim>\<open>None\<close>.
\<close>

definition getAccessToken :: "session \<Rightarrow> net \<Rightarrow> world \<Rightarrow> (error + json) \<times> world" where
  "getAccessToken self net w =
     (let w1 = emit (Send (auth_request self)) w;
          at = net (auth_request self)
      in case py_in ''access_token'' at of
           Inl e \<Rightarrow> (Inl e, w1)
         | Inr True \<Rightarrow>
             (case py_getitem at ''access_token'' of
                Inl e \<Rightarrow> (Inl e, w1)
              | Inr v \<Rightarrow> if v \<noteq> JNull then (Inr v, w1) else (Inr JNull, w1))
         | Inr False \<Rightarrow>
             (case py_getitem at ''errors'' of
                Inl e \<Rightarrow> (Inl e, w1)
              | Inr errs \<Rightarrow> (Inl (KeyError [JStr ''Cannot get access token'', errs]), w1)))"

text \<open>
  The token file (lines 158 and 167): the lines with exactly two tab-separated fields
  become the dict; the dict is written back as one \<^verbatim>\<open>key<TAB>value\<close> line per entry.
\<close>

definition parse_tokens :: "string \<Rightarrow> (string \<times> string) list" where
  "parse_tokens text =
     dict_of (concat (map (\<lambda>x. case str_split TAB x of
                                  [k, v] \<Rightarrow> [(k, v)]
                                | _ \<Rightarrow> [])
                          (str_split LF text)))"

definition dump_tokens :: "(string \<times> string) list \<Rightarrow> string" where
  "dump_tokens tokens = str_join [LF] (map (\<lambda>x. str_join [TAB] [fst x, snd x]) tokens)"

text \<open>
  \<^verbatim>\<open>assignAccessToken\<close> (lines 145-176). \<^verbatim>\<open>except(IOError or ValueError)\<close> is
  \<^verbatim>\<open>except IOError\<close>, since \<^verbatim>\<open>IOError or ValueError\<close> evaluates to \<^verbatim>\<open>IOError\<close>: a
  \<^verbatim>\<open>ValueError\<close>, \<^verbatim>\<open>KeyError\<close> or \<^verbatim>\<open>TypeError\<close> raised in the \<^verbatim>\<open>try\<close> block propagates.
  A fetched token that is not a str makes the string concatenation fail with
  \<^verbatim>\<open>TypeError\<close>, after the file has been opened for writing.
\<close>

definition assignAccessToken ::
  "session \<Rightarrow> net \<Rightarrow> string \<Rightarrow> bool \<Rightarrow> world \<Rightarrow> (error + string) \<times> world" where
  "assignAccessToken self net token_path fromfile w =
     (let w0 = emit (Open_read token_path) w in
      case files w token_path of
        None \<Rightarrow>
          (case getAccessToken self net w0 of
             (Inl e, w1) \<Rightarrow> (Inl e, w1)
           | (Inr tok, w1) \<Rightarrow>
               (let w2 = open_write token_path w1 in
                case tok of
                  JStr t \<Rightarrow> (Inr t, write_file token_path (username self @ [TAB] @ t) w2)
                | _ \<Rightarrow> (Inl TypeError, w2)))
      | Some Undecodable \<Rightarrow> (Inl ValueError, w0)
      | Some (Text content) \<Rightarrow>
          (let tokens = parse_tokens (universal_newlines content) in
           case (if fromfile then map_of tokens (username self) else None) of
             Some t \<Rightarrow> (Inr t, w0)
           | None \<Rightarrow>
               (case getAccessToken self net w0 of
                  (Inl e, w1) \<Rightarrow> (Inl e, w1)
                | (Inr tok, w1) \<Rightarrow>
                    (let w2 = open_write token_path w1 in
                     case tok of
                       JStr t \<Rightarrow>
                         (Inr t, write_file token_path
                                   (dump_tokens (dict_set (username self) t tokens)) w2)
                     | _ \<Rightarrow> (Inl TypeError, w2)))))"

text \<open>
  \<^verbatim>\<open>BWUser.__init__\<close> (lines 20-38). The optional arguments are immutable strings, so a
  caller that omits one passes its default (\<^verbatim>\<open>""\<close>, \<^verbatim>\<open>"tokens.txt"\<close>).
\<close>

definition new_user :: "string \<Rightarrow> string \<Rightarrow> session" where
  "new_user u p =
     \<lparr>apiurl = ''https://newapi.brandwatch.com/'',
      oauthpath = ''oauth/token'',
      username = u,
      password = p,
      token = [],
      console_report = None,
      project_name = [],
      project_id = JNull,
      project_address = []\<rparr>"

definition BWUser_init ::
  "net \<Rightarrow> string \<Rightarrow> string \<Rightarrow> string \<Rightarrow> string \<Rightarrow> world \<Rightarrow> (error + session) \<times> world" where
  "BWUser_init net u p tok token_path w =
     (if tok \<noteq> [] then (Inr ((new_user u p)\<lparr>token := tok\<rparr>), w)
      else (case assignAccessToken (new_user u p) net token_path True w of
              (Inl e, w1) \<Rightarrow> (Inl e, w1)
            | (Inr t, w1) \<Rightarrow> (Inr ((new_user u p)\<lparr>token := t\<rparr>), w1)))"

text \<open>
  The condition of line 136, \<^verbatim>\<open>"errors" in body and body["errors"] and
  self.console_report\<close>, evaluated from left to right: the attribute is read only when
  the first two operands are true, and reading it raises \<^verbatim>\<open>AttributeError\<close> on an
  object that has none.
\<close>

definition errors_reported :: "session \<Rightarrow> json \<Rightarrow> error + bool" where
  "errors_reported self body =
     (case py_in ''errors'' body of
        Inl e \<Rightarrow> Inl e
      | Inr False \<Rightarrow> Inr False
      | Inr True \<Rightarrow>
          (case py_getitem body ''errors'' of
             Inl e \<Rightarrow> Inl e
           | Inr errs \<Rightarrow>
               if truthy errs
               then (case console_report self of
                       None \<Rightarrow> Inl (AttributeError ''console_report'')
                     | Some b \<Rightarrow> Inr b)
               else Inr False))"

text \<open>
  \<^verbatim>\<open>bare_request\<close> (lines 109-143). \<open>params'\<close> is \<open>None\<close> when the caller omits the
  argument: the function then works on its default dict. A caller that omits
  \<^verbatim>\<open>access_token\<close> passes \<^verbatim>\<open>""\<close>, one that omits \<^verbatim>\<open>data\<close> passes \<^verbatim>\<open>{}\<close>.
\<close>

definition build_request :: "verb \<Rightarrow> string \<Rightarrow> dict \<Rightarrow> json \<Rightarrow> request" where
  "build_request v address ps data' =
     (if data' = JObj []
      then \<lparr>verb = v, url = address, params = ps, data = None, headers = []\<rparr>
      else \<lparr>verb = v, url = address, params = ps, data = Some data',
            headers = [(''Content-type'', ''application/json'')]\<rparr>)"

definition bare_request ::
  "session \<Rightarrow> net \<Rightarrow> verb \<Rightarrow> string \<Rightarrow> string \<Rightarrow> string \<Rightarrow> ref option \<Rightarrow> json \<Rightarrow> world
     \<Rightarrow> (error + json) \<times> world" where
  "bare_request self net v address_root address_suffix access_token params' data' w =
     (let p = (case params' of None \<Rightarrow> Bare_request_params | Some r \<Rightarrow> r);
          w1 = emit Sleep w;
          w2 = (if access_token \<noteq> []
                then w1\<lparr>heap := (heap w1)(p := dict_set ''access_token'' (JStr access_token) (heap w1 p))\<rparr>
                else w1);
          req = build_request v (address_root @ address_suffix) (heap w2 p) data';
          w3 = emit (Send req) w2;
          body = net req
      in case errors_reported self body of
           Inl e \<Rightarrow> (Inl e, w3)
         | Inr shown \<Rightarrow>
             (let w4 = (if shown then emit (Print_json body) w3 else w3)
              in (Inr body, emit (Print_url (url req) (params req)) w4)))"

text \<open>\<^verbatim>\<open>request\<close> (lines 94-107) passes its own \<open>params\<close> and \<open>data\<close> on by keyword.\<close>

definition request ::
  "session \<Rightarrow> net \<Rightarrow> verb \<Rightarrow> string \<Rightarrow> ref option \<Rightarrow> json \<Rightarrow> world \<Rightarrow> (error + json) \<times> world" where
  "request self net v address params' data' w =
     bare_request self net v (apiurl self) address (token self)
       (Some (case params' of None \<Rightarrow> Request_params | Some r \<Rightarrow> r)) data' w"

text \<open>\<^verbatim>\<open>get_projects\<close> (lines 40-48) and \<^verbatim>\<open>get_self\<close> (lines 50-52).\<close>

definition get_projects :: "session \<Rightarrow> net \<Rightarrow> world \<Rightarrow> (error + json) \<times> world" where
  "get_projects self net w =
     (case request self net GET ''projects'' None (JObj []) w of
        (Inl e, w1) \<Rightarrow> (Inl e, w1)
      | (Inr response, w1) \<Rightarrow>
          (case py_in ''results'' response of
             Inl e \<Rightarrow> (Inl e, w1)
           | Inr True \<Rightarrow>
               (case py_getitem response ''results'' of
                  Inl e \<Rightarrow> (Inl e, w1)
                | Inr v \<Rightarrow> (Inr v, w1))
           | Inr False \<Rightarrow> (Inr response, w1)))"

definition get_self :: "session \<Rightarrow> net \<Rightarrow> world \<Rightarrow> (error + json) \<times> world" where
  "get_self self net w = request self net GET ''me'' None (JObj []) w"

text \<open>
  The validators (lines 54-92). \<^verbatim>\<open>**kwargs\<close> is a dict made for the call; it is passed
  on as \<open>params\<close>, so it lives in the store.
\<close>

definition validate ::
  "string \<Rightarrow> session \<Rightarrow> net \<Rightarrow> dict \<Rightarrow> world \<Rightarrow> (error + unit) \<times> world" where
  "validate address self net kwargs w =
     (if map_of kwargs ''query'' = None
      then (Inl (KeyError [JStr (''Must pass: query = '' @ [CHR 0x27] @ ''search terms'' @ [CHR 0x27])]), w)
      else
        (let kwargs1 = (if map_of kwargs ''language'' = None
                        then dict_set ''language'' (JList [JStr ''en'']) kwargs
                        else kwargs);
             (p, w1) = alloc kwargs1 w
         in case request self net GET address (Some p) (JObj []) w1 of
              (Inl e, w2) \<Rightarrow> (Inl e, w2)
            | (Inr valid_search, w2) \<Rightarrow>
                (case py_getitem valid_search ''errors'' of
                   Inl e \<Rightarrow> (Inl e, w2)
                 | Inr errs \<Rightarrow>
                     if truthy errs
                     then (Inl (KeyError [JStr ''Search string error: '', errs]), w2)
                     else (Inr (), w2))))"

definition validate_query_search ::
  "session \<Rightarrow> net \<Rightarrow> dict \<Rightarrow> world \<Rightarrow> (error + unit) \<times> world" where
  "validate_query_search = validate ''query-validation''"

definition validate_rule_search ::
  "session \<Rightarrow> net \<Rightarrow> dict \<Rightarrow> world \<Rightarrow> (error + unit) \<times> world" where
  "validate_rule_search = validate ''query-validation/searchwithin''"

section \<open>BWProject\<close>









text \<open>The verb methods (lines 247-313), each with a default \<open>params\<close> dict of its own.\<close>

definition get ::
  "session \<Rightarrow> net \<Rightarrow> string \<Rightarrow> ref option \<Rightarrow> world \<Rightarrow> (error + json) \<times> world" where
  "get self net endpoint params' w =
     request self net GET (project_address self @ endpoint)
       (Some (case params' of None \<Rightarrow> Get_params | Some r \<Rightarrow> r)) (JObj []) w"





section \<open>Observations\<close>

text \<open>The requests sent so far, oldest first, read off the trace.\<close>

definition sent :: "world \<Rightarrow> request list" where
  "sent w = concat (map (\<lambda>e. case e of Send r \<Rightarrow> [r] | _ \<Rightarrow> []) (trace w))"

text \<open>
  The dict that line 158 builds from the file at \<open>path\<close> (empty when there is no
  readable text), and the lookup of lines 161-162 in it.
\<close>

definition stored_tokens :: "world \<Rightarrow> string \<Rightarrow> (string \<times> string) list" where
  "stored_tokens w path =
     (case files w path of
        Some (Text content) \<Rightarrow> parse_tokens (universal_newlines content)
      | _ \<Rightarrow> [])"

definition cached_token :: "world \<Rightarrow> string \<Rightarrow> string \<Rightarrow> string option" where
  "cached_token w path u = map_of (stored_tokens w path) u"

text \<open>A string with no tab, line feed or carriage return.\<close>

definition clean :: "string \<Rightarrow> bool" where
  "clean s = (TAB \<notin> set s \<and> LF \<notin> set s \<and> CR \<notin> set s)"


text \<open>
  A world to run examples in: no files, every default dict still empty, nothing
  allocated, nothing done.
\<close>

definition world0 :: world where
  "world0 = \<lparr>files = Map.empty, heap = (\<lambda>r. []), next_obj = 0, trace = []\<rparr>"

text \<open>
  A user session built with an explicit token, and servers with fixed answers: one
  that reports an error, one that grants a token, one whose \<open>access_token\<close> is null.
\<close>

definition alice :: session where
  "alice = (new_user ''alice'' [])\<lparr>token := ''tok123''\<rparr>"

definition error_server :: net where
  "error_server =
     (\<lambda>req. JObj [(''errors'', JList [JObj [(''code'', JNum 401),
                                              (''message'', JStr ''invalid token'')]])])"

definition token_server :: "string \<Rightarrow> net" where
  "token_server t = (\<lambda>req. JObj [(''access_token'', JStr t)])"

definition null_token_server :: net where
  "null_token_server =
     (\<lambda>req. JObj [(''access_token'', JNull), (''errors'', JStr ''invalid_grant'')])"

text \<open>
  What the dict read from a token file always satisfies: no key twice, no tab, line
  feed or carriage return inside a key or a value.
\<close>

definition wf_tokens :: "(string \<times> string) list \<Rightarrow> bool" where
  "wf_tokens d = (distinct (map fst d) \<and> (\<forall>kv \<in> set d. clean (fst kv) \<and> clean (snd kv)))"


text \<open>
  A world whose token file holds a token for \<open>alice\<close>, and a server that lists three
  projects, two of them with the same name.
\<close>

definition saved_world :: world where
  "saved_world = world0\<lparr>files := [''tokens.txt'' \<mapsto> Text (''alice'' @ [TAB] @ ''tok123'')]\<rparr>"


section \<open>Basic facts\<close>

lemma sent_emit [simp]:
  "sent (emit e w) = sent w @ (case e of Send r \<Rightarrow> [r] | _ \<Rightarrow> [])"
  by (simp add: sent_def emit_def)

lemma sent_heap_update [simp]: "sent (w\<lparr>heap := h\<rparr>) = sent w"
  by (simp add: sent_def)

lemma heap_emit [simp]: "heap (emit e w) = heap w"
  by (simp add: emit_def)

lemma files_write_file [simp]: "files (write_file path s w) = (files w)(path \<mapsto> Text s)"
  by (simp add: write_file_def emit_def)

lemma trace_write_file [simp]: "trace (write_file path s w) = trace w @ [Write path s]"
  by (simp add: write_file_def emit_def)

lemma trace_open_write [simp]: "trace (open_write path w) = trace w @ [Open_write path]"
  by (simp add: open_write_def emit_def)

lemma trace_emit [simp]: "trace (emit e w) = trace w @ [e]"
  by (simp add: emit_def)

lemma files_emit [simp]: "files (emit e w) = files w"
  by (simp add: emit_def)

lemma files_open_write [simp]: "files (open_write path w) = (files w)(path \<mapsto> Text [])"
  by (simp add: open_write_def emit_def)

lemma map_of_dict_set: "map_of (dict_set k v d) = (map_of d)(k \<mapsto> v)"
  by (induction d) (auto simp: fun_eq_iff)

section \<open>The dispatcher\<close>

lemma sent_bare_request:
  "sent (snd (bare_request self net v root suffix tok ps d w)) =
     sent w @ [build_request v (root @ suffix)
        (if tok \<noteq> []
         then dict_set ''access_token'' (JStr tok)
                (heap w (case ps of None \<Rightarrow> Bare_request_params | Some r \<Rightarrow> r))
         else heap w (case ps of None \<Rightarrow> Bare_request_params | Some r \<Rightarrow> r)) d]"
  by (simp add: bare_request_def Let_def split: sum.splits)

lemma heap_bare_request:
  "heap (snd (bare_request self net v root suffix tok ps d w)) =
     (if tok \<noteq> []
      then (heap w)((case ps of None \<Rightarrow> Bare_request_params | Some r \<Rightarrow> r) :=
             dict_set ''access_token'' (JStr tok)
               (heap w (case ps of None \<Rightarrow> Bare_request_params | Some r \<Rightarrow> r)))
      else heap w)"
  by (simp add: bare_request_def Let_def split: sum.splits)

text \<open>
  Claim C8, amended. Every call of the dispatcher sends exactly one request, to the
  root followed by the suffix. A non-empty access token is in its query parameters
  under the key \<open>access_token\<close>, and no header carries it: the only header ever sent
  is \<open>Content-type\<close>. A body that is anything but the empty dict \<^verbatim>\<open>{}\<close>, an empty
  string, an empty list or \<^verbatim>\<open>None\<close> included, travels as the entity together with the
  header \<open>Content-type: application/json\<close>; only with the empty dict, which is also
  the default of a call that supplies no body, does the request have query parameters
  only, no entity and no header.
\<close>

theorem request_construction:
  "\<exists>req. sent (snd (bare_request self net v root suffix tok ps d w)) = sent w @ [req]
     \<and> verb req = v \<and> url req = root @ suffix
     \<and> (tok \<noteq> [] \<longrightarrow> map_of (params req) ''access_token'' = Some (JStr tok))
     \<and> fst ` set (headers req) \<subseteq> {''Content-type''}
     \<and> (d \<noteq> JObj [] \<longrightarrow>
           headers req = [(''Content-type'', ''application/json'')] \<and> data req = Some d)
     \<and> (d = JObj [] \<longrightarrow> headers req = [] \<and> data req = None)"
  unfolding sent_bare_request
  by (simp add: build_request_def map_of_dict_set)

theorem request_construction_witness:
  "\<exists>req. sent (snd (bare_request (new_user ''alice'' ''pw'') (\<lambda>r. JObj []) POST
                      ''https://newapi.brandwatch.com/'' ''projects/42/queries''
                      ''tok123'' None (JStr ''{}'') world0)) = [req]
     \<and> map_of (params req) ''access_token'' = Some (JStr ''tok123'')
     \<and> headers req = [(''Content-type'', ''application/json'')]
     \<and> data req = Some (JStr ''{}'')"
  using request_construction [of "new_user ''alice'' ''pw''" "\<lambda>r. JObj []" POST
      "''https://newapi.brandwatch.com/''" "''projects/42/queries''" "''tok123''" None
      "JStr ''{}''" world0]
  by (auto simp: world0_def sent_def)

text \<open>
  Claim C8 as stated fails for a body that is empty without being the empty dict:
  the empty string, the empty list and \<^verbatim>\<open>None\<close> are all false as Python values, and
  each of them is sent as the entity, with the header \<open>Content-type:
  application/json\<close>.
\<close>

theorem request_construction_counterexample:
  "\<not> truthy (JStr []) \<and> \<not> truthy (JList []) \<and> \<not> truthy JNull
   \<and> sent (snd (bare_request alice error_server POST (apiurl alice) ''projects/42/queries''
                  (token alice) None (JStr []) world0))
       = [\<lparr>verb = POST, url = ''https://newapi.brandwatch.com/projects/42/queries'',
           params = [(''access_token'', JStr ''tok123'')], data = Some (JStr []),
           headers = [(''Content-type'', ''application/json'')]\<rparr>]
   \<and> sent (snd (bare_request alice error_server POST (apiurl alice) ''projects/42/queries''
                  (token alice) None (JList []) world0))
       = [\<lparr>verb = POST, url = ''https://newapi.brandwatch.com/projects/42/queries'',
           params = [(''access_token'', JStr ''tok123'')], data = Some (JList []),
           headers = [(''Content-type'', ''application/json'')]\<rparr>]
   \<and> sent (snd (bare_request alice error_server POST (apiurl alice) ''projects/42/queries''
                  (token alice) None JNull world0))
       = [\<lparr>verb = POST, url = ''https://newapi.brandwatch.com/projects/42/queries'',
           params = [(''access_token'', JStr ''tok123'')], data = Some JNull,
           headers = [(''Content-type'', ''application/json'')]\<rparr>]"
  unfolding sent_bare_request
  by (simp add: build_request_def alice_def new_user_def world0_def sent_def)

lemma dict_set_not_Nil [simp]: "dict_set k v d \<noteq> []"
  by (cases d) auto

lemma params_build_request [simp]: "params (build_request v a ps d) = ps"
  by (simp add: build_request_def)

lemma sent_request:
  "sent (snd (request self net v address ps d w)) =
     sent w @ [build_request v (apiurl self @ address)
        (if token self \<noteq> []
         then dict_set ''access_token'' (JStr (token self))
                (heap w (case ps of None \<Rightarrow> Request_params | Some r \<Rightarrow> r))
         else heap w (case ps of None \<Rightarrow> Request_params | Some r \<Rightarrow> r)) d]"
  by (simp add: request_def sent_bare_request)

lemma heap_request:
  "heap (snd (request self net v address ps d w)) =
     (if token self \<noteq> []
      then (heap w)((case ps of None \<Rightarrow> Request_params | Some r \<Rightarrow> r) :=
             dict_set ''access_token'' (JStr (token self))
               (heap w (case ps of None \<Rightarrow> Request_params | Some r \<Rightarrow> r)))
      else heap w)"
  by (simp add: request_def heap_bare_request)

text \<open>
  Claim C10. A call of the dispatcher with a non-empty token writes the key
  \<open>access_token\<close> into the very dict the caller passed. A call that passes no
  \<open>params\<close> works on the function's one default dict, so after it that dict is no
  longer empty, and the next call without \<open>params\<close> starts from it: its request
  carries the parameters the first call left, the first call's token included when
  the second call has none of its own. This holds for \<^verbatim>\<open>bare_request\<close> and for
  \<^verbatim>\<open>request\<close>, each with its own default dict.
\<close>

theorem shared_default_params:
  "(tok \<noteq> [] \<longrightarrow>
      heap (snd (bare_request self net v root suffix tok (Some p) d w)) p =
        dict_set ''access_token'' (JStr tok) (heap w p))
   \<and> (tok \<noteq> [] \<longrightarrow>
        heap (snd (bare_request self net v root suffix tok None d w)) Bare_request_params =
          dict_set ''access_token'' (JStr tok) (heap w Bare_request_params)
        \<and> heap (snd (bare_request self net v root suffix tok None d w)) Bare_request_params \<noteq> []
        \<and> (\<exists>req. sent (snd (bare_request self2 net2 v2 root2 suffix2 tok2 None d2
                            (snd (bare_request self net v root suffix tok None d w)))) =
                    sent (snd (bare_request self net v root suffix tok None d w)) @ [req]
               \<and> params req =
                   (if tok2 \<noteq> []
                    then dict_set ''access_token'' (JStr tok2)
                           (dict_set ''access_token'' (JStr tok) (heap w Bare_request_params))
                    else dict_set ''access_token'' (JStr tok) (heap w Bare_request_params))))
   \<and> (token self \<noteq> [] \<longrightarrow>
        heap (snd (request self net v address None d w)) Request_params =
          dict_set ''access_token'' (JStr (token self)) (heap w Request_params)
        \<and> heap (snd (request self net v address None d w)) Request_params \<noteq> []
        \<and> (\<exists>req. sent (snd (request self2 net2 v2 address2 None d2
                            (snd (request self net v address None d w)))) =
                    sent (snd (request self net v address None d w)) @ [req]
               \<and> params req =
                   (if token self2 \<noteq> []
                    then dict_set ''access_token'' (JStr (token self2))
                           (dict_set ''access_token'' (JStr (token self)) (heap w Request_params))
                    else dict_set ''access_token'' (JStr (token self)) (heap w Request_params))))"
  by (simp add: heap_bare_request heap_request sent_bare_request sent_request)

theorem shared_default_params_witness:
  "heap (snd (bare_request alice error_server GET (apiurl alice) ''me'' ''tok123''
                (Some (Obj 0)) (JObj []) world0)) (Obj 0)
     = [(''access_token'', JStr ''tok123'')]
   \<and> heap (snd (bare_request alice error_server GET (apiurl alice) ''me'' ''tok123''
                  None (JObj []) world0)) Bare_request_params
       = [(''access_token'', JStr ''tok123'')]
   \<and> (\<exists>req. sent (snd (bare_request (new_user ''bob'' []) error_server GET (apiurl alice)
                         ''me'' [] None (JObj [])
                         (snd (bare_request alice error_server GET (apiurl alice) ''me''
                                 ''tok123'' None (JObj []) world0)))) =
                sent (snd (bare_request alice error_server GET (apiurl alice) ''me''
                             ''tok123'' None (JObj []) world0)) @ [req]
          \<and> params req = [(''access_token'', JStr ''tok123'')])
   \<and> heap (snd (request alice error_server GET ''me'' None (JObj []) world0)) Request_params
       = [(''access_token'', JStr ''tok123'')]
   \<and> (\<exists>req. sent (snd (request (new_user ''bob'' []) error_server GET ''me'' None (JObj [])
                         (snd (request alice error_server GET ''me'' None (JObj []) world0)))) =
                sent (snd (request alice error_server GET ''me'' None (JObj []) world0)) @ [req]
          \<and> params req = [(''access_token'', JStr ''tok123'')])"
  using shared_default_params [where tok = "''tok123''" and self = alice and net = error_server
     and v = GET and root = "apiurl alice" and suffix = "''me''" and p = "Obj 0"
     and d = "JObj []" and w = world0 and ?self2.0 = "new_user ''bob'' []"
     and ?net2.0 = error_server and ?v2.0 = GET and ?root2.0 = "apiurl alice"
     and ?suffix2.0 = "''me''" and ?tok2.0 = "[]" and ?d2.0 = "JObj []"
     and address = "''me''" and ?address2.0 = "''me''"]
  by (simp add: world0_def alice_def new_user_def)

text \<open>
  On an object whose \<open>console_report\<close> is set, as \<^verbatim>\<open>BWProject.__init__\<close> sets it, a dict
  body comes back whatever its \<open>errors\<close> field holds.
\<close>

lemma errors_reported_with_flag:
  "console_report self = Some b \<Longrightarrow>
     errors_reported self (JObj kvs) =
       Inr (case map_of kvs ''errors'' of None \<Rightarrow> False | Some errs \<Rightarrow> truthy errs \<and> b)"
  by (auto simp: errors_reported_def split: option.splits)

lemma bare_request_with_flag:
  "console_report self = Some b \<Longrightarrow>
     fst (bare_request self (\<lambda>req. JObj kvs) v root suffix tok ps d w) = Inr (JObj kvs)"
  by (simp add: bare_request_def Let_def errors_reported_with_flag)

lemma bare_request_trace_with_flag:
  "console_report self = Some b \<Longrightarrow>
     \<exists>req. trace (snd (bare_request self (\<lambda>req. JObj kvs) v root suffix tok ps d w)) =
       trace w @ [Sleep, Send req]
         @ (case map_of kvs ''errors'' of
              None \<Rightarrow> []
            | Some errs \<Rightarrow> if truthy errs \<and> b then [Print_json (JObj kvs)] else [])
         @ [Print_url (url req) (params req)]"
  by (auto simp: bare_request_def Let_def errors_reported_with_flag split: option.splits)

lemma request_with_flag:
  "console_report self = Some b \<Longrightarrow>
     fst (request self (\<lambda>req. JObj kvs) v address ps d w) = Inr (JObj kvs)"
  by (simp add: request_def bare_request_with_flag)


text \<open>
  Claim C3. The dispatcher is a method of \<^verbatim>\<open>BWUser\<close>, and \<^verbatim>\<open>BWUser.__init__\<close> never
  sets \<open>console_report\<close>. On such a user session, here the one built for \<open>alice\<close> with
  an explicit token, a response body with a non-empty \<open>errors\<close> field does not come
  back: the dispatcher raises \<^verbatim>\<open>AttributeError\<close> when it reads the attribute.
\<close>

theorem bare_request_raises_on_user_session:
  "fst (bare_request alice error_server GET (apiurl alice) ''me'' (token alice) None (JObj [])
          world0)
     = Inl (AttributeError ''console_report'')"
  by (simp add: bare_request_def errors_reported_def alice_def new_user_def error_server_def
      Let_def)

section \<open>User-level operations\<close>

lemma get_projects_unwraps:
  "request self net GET ''projects'' None (JObj []) w = (Inr (JObj kvs), w1) \<Longrightarrow>
     get_projects self net w =
       (Inr (case map_of kvs ''results'' of Some v \<Rightarrow> v | None \<Rightarrow> JObj kvs), w1)"
  by (auto simp: get_projects_def split: option.splits)

text \<open>
  Claim C9. The project list of a user session whose server answers with an error
  body, which has no \<open>results\<close> field: the raw body does not come back, the call
  raises \<^verbatim>\<open>AttributeError\<close> inside the dispatcher.
\<close>

theorem get_projects_raises_on_user_session:
  "fst (get_projects alice error_server world0) = Inl (AttributeError ''console_report'')"
  by (simp add: get_projects_def request_def bare_request_def errors_reported_def alice_def
      new_user_def error_server_def Let_def)

lemma validate_without_query:
  "map_of kwargs ''query'' = None \<Longrightarrow>
     validate address self net kwargs w =
       (Inl (KeyError [JStr (''Must pass: query = '' @ [CHR 0x27] @ ''search terms'' @ [CHR 0x27])]),
        w)"
  by (simp add: validate_def)

lemma validate_sends:
  "map_of kwargs ''query'' \<noteq> None \<Longrightarrow>
     sent (snd (validate address self net kwargs w)) =
       sent w @ [build_request GET (apiurl self @ address)
          (if token self \<noteq> []
           then dict_set ''access_token'' (JStr (token self))
                  (if map_of kwargs ''language'' = None
                   then dict_set ''language'' (JList [JStr ''en'']) kwargs else kwargs)
           else (if map_of kwargs ''language'' = None
                 then dict_set ''language'' (JList [JStr ''en'']) kwargs else kwargs))
          (JObj [])]"
proof -
  let ?kw = "if map_of kwargs ''language'' = None
             then dict_set ''language'' (JList [JStr ''en'']) kwargs else kwargs"
  let ?w1 = "snd (alloc ?kw w)"
  let ?p = "fst (alloc ?kw w)"
  assume q: "map_of kwargs ''query'' \<noteq> None"
  have h: "heap ?w1 ?p = ?kw" and s: "sent ?w1 = sent w"
    by (simp_all add: alloc_def sent_def)
  have "snd (validate address self net kwargs w) =
          snd (request self net GET address (Some ?p) (JObj []) ?w1)"
    using q by (auto simp: validate_def Let_def split_beta split: prod.splits sum.splits)
  then show ?thesis
    using h s by (simp add: sent_request del: dict_set.simps)
qed

lemma validate_with_flag:
  assumes "console_report self = Some b"
    and "map_of kwargs ''query'' \<noteq> None" and "map_of kvs ''errors'' = Some errs"
  shows "fst (validate address self (\<lambda>req. JObj kvs) kwargs w) =
           (if truthy errs then Inl (KeyError [JStr ''Search string error: '', errs])
            else Inr ())"
proof -
  obtain p w1 where a: "alloc (if map_of kwargs ''language'' = None
                        then dict_set ''language'' (JList [JStr ''en'']) kwargs
                        else kwargs) w = (p, w1)"
    by (cases "alloc (if map_of kwargs ''language'' = None
                        then dict_set ''language'' (JList [JStr ''en'']) kwargs
                        else kwargs) w")
  obtain w2 where r:
    "request self (\<lambda>req. JObj kvs) GET address (Some p) (JObj []) w1 = (Inr (JObj kvs), w2)"
    using request_with_flag [OF assms(1), where kvs = kvs and v = GET and address = address
        and ps = "Some p" and d = "JObj []" and w = w1]
    by (cases "request self (\<lambda>req. JObj kvs) GET address (Some p) (JObj []) w1") auto
  show ?thesis
    using assms(2,3) a r by (auto simp: validate_def Let_def)
qed

text \<open>
  Claim C5. Both validators, called on the user session \<open>alice\<close> with a \<open>query\<close>,
  when the server reports errors for it: neither raises the \<^verbatim>\<open>KeyError\<close> that carries
  the error details; each fails with \<^verbatim>\<open>AttributeError\<close> inside the dispatcher.
\<close>

theorem validators_raise_AttributeError_on_user_session:
  "fst (validate_query_search alice error_server [(''query'', JStr ''cat AND'')] world0)
     = Inl (AttributeError ''console_report'')
   \<and> fst (validate_rule_search alice error_server [(''query'', JStr ''cat AND'')] world0)
     = Inl (AttributeError ''console_report'')"
  by (simp add: validate_query_search_def validate_rule_search_def validate_def request_def
      bare_request_def errors_reported_def alice_def new_user_def error_server_def alloc_def
      Let_def)

section \<open>Fetching a token\<close>

lemma getAccessToken_present:
  "net (auth_request self) = JObj kvs \<Longrightarrow> map_of kvs ''access_token'' = Some v \<Longrightarrow> v \<noteq> JNull
     \<Longrightarrow> getAccessToken self net w = (Inr v, emit (Send (auth_request self)) w)"
  by (simp add: getAccessToken_def)

lemma getAccessToken_absent:
  "net (auth_request self) = JObj kvs \<Longrightarrow> map_of kvs ''access_token'' = None
     \<Longrightarrow> map_of kvs ''errors'' = Some errs
     \<Longrightarrow> getAccessToken self net w =
           (Inl (KeyError [JStr ''Cannot get access token'', errs]),
            emit (Send (auth_request self)) w)"
  by (simp add: getAccessToken_def)

text \<open>
  Claim C2. A token response whose \<open>access_token\<close> field is null, with an \<open>errors\<close>
  field beside it: the fetch raises nothing and returns \<^verbatim>\<open>None\<close>.
\<close>

theorem getAccessToken_null_returns_None:
  "fst (getAccessToken (new_user ''alice'' ''pw'') null_token_server world0) = Inr JNull"
  by (simp add: getAccessToken_def null_token_server_def)

section \<open>The token file\<close>

text \<open>
  Claim C6. A token file that exists and cannot be read as text, for a user with no
  explicit token: the \<^verbatim>\<open>ValueError\<close> of the read leaves \<^verbatim>\<open>assignAccessToken\<close>; no token
  is fetched and nothing is written, the file stays as it was.
\<close>

theorem undecodable_token_file_propagates:
  "assignAccessToken (new_user ''alice'' ''pw'') (token_server ''tok123'') ''tokens.txt'' True
     (world0\<lparr>files := [''tokens.txt'' \<mapsto> Undecodable]\<rparr>)
   = (Inl ValueError,
      emit (Open_read ''tokens.txt'') (world0\<lparr>files := [''tokens.txt'' \<mapsto> Undecodable]\<rparr>))"
  by (simp add: assignAccessToken_def)

lemma universal_newlines_id: "CR \<notin> set s \<Longrightarrow> universal_newlines s = s"
  by (induction s rule: universal_newlines.induct) auto

lemma CR_notin_universal_newlines: "CR \<notin> set (universal_newlines s)"
  by (induction s rule: universal_newlines.induct) (auto simp: CR_def LF_def)

lemma str_split_not_Nil [simp]: "str_split c s \<noteq> []"
  by (induction s) (auto split: list.splits)

lemma str_split_no_sep: "c \<notin> set s \<Longrightarrow> str_split c s = [s]"
  by (induction s) auto

lemma str_split_append: "c \<notin> set a \<Longrightarrow> str_split c (a @ c # b) = a # str_split c b"
  by (induction a) auto

lemma in_str_split: "x \<in> set (str_split c s) \<Longrightarrow> c \<notin> set x \<and> set x \<subseteq> set s"
proof (induction s arbitrary: x)
  case Nil
  then show ?case by simp
next
  case (Cons a s)
  show ?case
  proof (cases "a = c")
    case True
    with Cons show ?thesis by auto
  next
    case False
    obtain y ys where sp: "str_split c s = y # ys"
      by (cases "str_split c s") auto
    with False Cons.prems have "x = a # y \<or> x \<in> set ys" by auto
    then show ?thesis
    proof
      assume "x = a # y"
      moreover have "c \<notin> set y \<and> set y \<subseteq> set s" using Cons.IH [of y] sp by simp
      ultimately show ?thesis using False by auto
    next
      assume "x \<in> set ys"
      then have "c \<notin> set x \<and> set x \<subseteq> set s" using Cons.IH [of x] sp by simp
      then show ?thesis by auto
    qed
  qed
qed

lemma str_split_join:
  "ls \<noteq> [] \<Longrightarrow> (\<And>l. l \<in> set ls \<Longrightarrow> c \<notin> set l) \<Longrightarrow> str_split c (str_join [c] ls) = ls"
proof (induction "[c]" ls rule: str_join.induct)
  case 1
  then show ?case by simp
next
  case (2 x)
  then show ?case by (simp add: str_split_no_sep)
next
  case (3 x y ys)
  then show ?case by (simp add: str_split_append)
qed

lemma dict_set_fresh: "k \<notin> fst ` set d \<Longrightarrow> dict_set k v d = d @ [(k, v)]"
  by (induction d) auto

lemma keys_dict_set:
  "map fst (dict_set k v d) = (if k \<in> fst ` set d then map fst d else map fst d @ [k])"
  by (induction d) auto

lemma set_dict_set: "set (dict_set k v d) \<subseteq> insert (k, v) (set d)"
  by (induction d) auto

lemma distinct_dict_set: "distinct (map fst d) \<Longrightarrow> distinct (map fst (dict_set k v d))"
  by (simp add: keys_dict_set)

lemma foldl_dict_set_fresh:
  "distinct (map fst ps) \<Longrightarrow> fst ` set acc \<inter> fst ` set ps = {} \<Longrightarrow>
     foldl (\<lambda>d kv. dict_set (fst kv) (snd kv) d) acc ps = acc @ ps"
proof (induction ps arbitrary: acc)
  case Nil
  then show ?case by simp
next
  case (Cons p ps)
  have "fst p \<notin> fst ` set acc"
    using Cons.prems(2) by auto
  then have "dict_set (fst p) (snd p) acc = acc @ [p]"
    by (simp add: dict_set_fresh)
  moreover have "foldl (\<lambda>d kv. dict_set (fst kv) (snd kv) d) (acc @ [p]) ps = (acc @ [p]) @ ps"
  proof (rule Cons.IH)
    show "distinct (map fst ps)" using Cons.prems(1) by simp
    show "fst ` set (acc @ [p]) \<inter> fst ` set ps = {}"
      using Cons.prems by (auto simp: image_iff)
  qed
  ultimately show ?case by simp
qed

lemma dict_of_distinct: "distinct (map fst ps) \<Longrightarrow> dict_of ps = ps"
  using foldl_dict_set_fresh [of ps "[]"] by (simp add: dict_of_def)

lemma foldl_dict_set_inv:
  "distinct (map fst acc) \<Longrightarrow>
     distinct (map fst (foldl (\<lambda>d kv. dict_set (fst kv) (snd kv) d) acc ps))
     \<and> set (foldl (\<lambda>d kv. dict_set (fst kv) (snd kv) d) acc ps) \<subseteq> set acc \<union> set ps"
proof (induction ps arbitrary: acc)
  case Nil
  then show ?case by simp
next
  case (Cons p ps)
  have d: "distinct (map fst (dict_set (fst p) (snd p) acc))"
    using Cons.prems by (rule distinct_dict_set)
  have s: "set (dict_set (fst p) (snd p) acc) \<subseteq> insert p (set acc)"
    using set_dict_set [of "fst p" "snd p" acc] by simp
  from Cons.IH [OF d] s show ?case by auto
qed

lemma dict_of_distinct_keys: "distinct (map fst (dict_of ps))"
  using foldl_dict_set_inv [of "[]" ps] by (simp add: dict_of_def)

lemma set_dict_of: "set (dict_of ps) \<subseteq> set ps"
  using foldl_dict_set_inv [of "[]" ps] by (simp add: dict_of_def)

lemma parse_tokens_entry:
  assumes "(k, v) \<in> set (parse_tokens text)"
  shows "TAB \<notin> set k \<and> TAB \<notin> set v \<and> LF \<notin> set k \<and> LF \<notin> set v \<and> set k \<subseteq> set text \<and> set v \<subseteq> set text"
proof -
  from assms set_dict_of obtain x where x: "x \<in> set (str_split LF text)"
    and kv: "(k, v) \<in> set (case str_split TAB x of [k, v] \<Rightarrow> [(k, v)] | _ \<Rightarrow> [])"
    unfolding parse_tokens_def by fastforce
  from kv have sp: "str_split TAB x = [k, v]"
    by (auto split: list.splits)
  then have "k \<in> set (str_split TAB x)" "v \<in> set (str_split TAB x)" by simp_all
  then have "TAB \<notin> set k \<and> set k \<subseteq> set x" "TAB \<notin> set v \<and> set v \<subseteq> set x"
    by (auto dest: in_str_split)
  moreover from x have "LF \<notin> set x \<and> set x \<subseteq> set text" by (rule in_str_split)
  ultimately show ?thesis by auto
qed

lemma wf_parse_tokens: "wf_tokens (parse_tokens (universal_newlines content))"
proof -
  have "distinct (map fst (parse_tokens (universal_newlines content)))"
    by (simp add: parse_tokens_def dict_of_distinct_keys)
  moreover have "clean (fst kv) \<and> clean (snd kv)"
    if "kv \<in> set (parse_tokens (universal_newlines content))" for kv
    using parse_tokens_entry [of "fst kv" "snd kv" "universal_newlines content"] that
      CR_notin_universal_newlines [of content]
    by (auto simp: clean_def)
  ultimately show ?thesis by (simp add: wf_tokens_def)
qed

lemma set_str_join: "set (str_join sep ls) \<subseteq> set sep \<union> \<Union> (set ` set ls)"
  by (induction sep ls rule: str_join.induct) auto

lemma parse_dump:
  assumes "wf_tokens d"
  shows "parse_tokens (universal_newlines (dump_tokens d)) = d"
proof (cases "d = []")
  case True
  then show ?thesis by (simp add: dump_tokens_def parse_tokens_def dict_of_def)
next
  case False
  let ?line = "\<lambda>x. str_join [TAB] [fst x, snd x]"
  have cl: "clean (fst kv) \<and> clean (snd kv)" if "kv \<in> set d" for kv
    using assms that by (simp add: wf_tokens_def)
  have line: "?line kv = fst kv @ TAB # snd kv" for kv :: "string \<times> string" by simp
  have noLF: "LF \<notin> set l" if "l \<in> set (map ?line d)" for l
    using that cl by (auto simp: clean_def TAB_def LF_def)
  have noCR: "CR \<notin> set (dump_tokens d)"
  proof
    assume "CR \<in> set (dump_tokens d)"
    then have "CR \<in> set [LF] \<union> \<Union> (set ` set (map ?line d))"
      unfolding dump_tokens_def by (rule set_str_join [THEN subsetD])
    then obtain l where "l \<in> set (map ?line d)" and "CR \<in> set l"
      by (auto simp: CR_def LF_def simp del: set_map str_join.simps)
    then obtain kv where "kv \<in> set d" and "CR \<in> set (?line kv)"
      by auto
    then show False
      using cl [of kv] by (auto simp: clean_def CR_def TAB_def)
  qed
  have sp: "str_split LF (dump_tokens d) = map ?line d"
    unfolding dump_tokens_def using False noLF by (intro str_split_join) auto
  have f: "(case str_split TAB (?line kv) of [k, v] \<Rightarrow> [(k, v)] | _ \<Rightarrow> []) = [kv]"
    if "kv \<in> set d" for kv
    using cl [OF that] by (simp add: clean_def str_split_append str_split_no_sep)
  have "concat (map (\<lambda>x. case str_split TAB x of [k, v] \<Rightarrow> [(k, v)] | _ \<Rightarrow> []) (map ?line d))
          = concat (map (\<lambda>kv. [kv]) d)"
    using f by (simp add: comp_def cong: map_cong)
  also have "\<dots> = d" by (induction d) auto
  finally show ?thesis
    using assms by (simp add: universal_newlines_id [OF noCR] parse_tokens_def sp
        dict_of_distinct wf_tokens_def)
qed

lemma wf_dict_set: "wf_tokens d \<Longrightarrow> clean k \<Longrightarrow> clean v \<Longrightarrow> wf_tokens (dict_set k v d)"
  using set_dict_set [of k v d] by (auto simp: wf_tokens_def distinct_dict_set)

lemma wf_Nil: "wf_tokens []"
  by (simp add: wf_tokens_def)

lemma wf_stored_tokens: "wf_tokens (stored_tokens w path)"
  by (simp add: stored_tokens_def wf_parse_tokens wf_Nil split: option.splits file_content.splits)

lemma assign_cached:
  "cached_token w path (username self) = Some t \<Longrightarrow>
     assignAccessToken self net path True w = (Inr t, emit (Open_read path) w)"
  by (auto simp: assignAccessToken_def cached_token_def stored_tokens_def Let_def
      split: option.splits file_content.splits)

lemma assign_saves:
  assumes "files w path \<noteq> Some Undecodable"
    and "(if fromfile then cached_token w path (username self) else None) = None"
    and "net (auth_request self) = JObj kvs"
    and "map_of kvs ''access_token'' = Some (JStr t)"
  shows "assignAccessToken self net path fromfile w =
           (Inr t,
            write_file path (dump_tokens (dict_set (username self) t (stored_tokens w path)))
              (open_write path (emit (Send (auth_request self)) (emit (Open_read path) w))))"
proof -
  have g: "getAccessToken self net w' = (Inr (JStr t), emit (Send (auth_request self)) w')" for w'
    using assms(3,4) by (simp add: getAccessToken_present)
  show ?thesis
  proof (cases "files w path")
    case None
    then show ?thesis
      by (simp add: assignAccessToken_def g stored_tokens_def dump_tokens_def Let_def)
  next
    case (Some f)
    with assms(1) obtain content where c: "files w path = Some (Text content)"
      by (cases f) auto
    from assms(2) c
    have "(if fromfile then map_of (parse_tokens (universal_newlines content)) (username self)
           else None) = None"
      by (auto simp: cached_token_def stored_tokens_def split: if_splits)
    with c show ?thesis
      by (simp add: assignAccessToken_def g stored_tokens_def Let_def)
  qed
qed

lemma cached_saved_world:
  "cached_token saved_world ''tokens.txt'' ''alice'' = Some ''tok123''"
  by (simp add: cached_token_def stored_tokens_def parse_tokens_def dict_of_def TAB_def LF_def
      CR_def world0_def saved_world_def)

lemma stored_after_save:
  assumes "clean u" and "clean t"
  shows "stored_tokens (write_file path (dump_tokens (dict_set u t (stored_tokens w path))) w0)
           path
           = dict_set u t (stored_tokens w path)"
proof -
  have "wf_tokens (dict_set u t (stored_tokens w path))"
    using wf_stored_tokens assms by (rule wf_dict_set)
  then show ?thesis
    by (simp add: stored_tokens_def parse_dump)
qed

text \<open>
  Token resolution where it works. A session built with a non-empty explicit token
  carries that very token and leaves the world as it was: no file is opened, no
  request is sent. With no explicit token and an entry for the user in the token
  file, the session carries the entry's token; the file is read and no request is
  sent. With neither, when the token file is absent or readable text and the token
  endpoint grants a token, exactly one request goes to the endpoint, the token file
  is then rewritten, and only then is the session returned with that token; a
  username and token without tab or line break are found again in the rewritten
  file.
\<close>

theorem token_resolution:
  "(tok \<noteq> [] \<longrightarrow>
      BWUser_init net u p tok path w = (Inr ((new_user u p)\<lparr>token := tok\<rparr>), w))
   \<and> (tok = [] \<and> cached_token w path u = Some t \<longrightarrow>
        BWUser_init net u p tok path w =
          (Inr ((new_user u p)\<lparr>token := t\<rparr>), emit (Open_read path) w)
        \<and> sent (emit (Open_read path) w) = sent w)
   \<and> (tok = [] \<and> cached_token w path u = None \<and> files w path \<noteq> Some Undecodable
        \<and> net (auth_request (new_user u p)) = JObj kvs
        \<and> map_of kvs ''access_token'' = Some (JStr t') \<longrightarrow>
        (\<exists>w'. BWUser_init net u p tok path w = (Inr ((new_user u p)\<lparr>token := t'\<rparr>), w')
           \<and> trace w' = trace w @
                [Open_read path, Send (auth_request (new_user u p)), Open_write path,
                 Write path (dump_tokens (dict_set u t' (stored_tokens w path)))]
           \<and> files w' =
               (files w)(path \<mapsto> Text (dump_tokens (dict_set u t' (stored_tokens w path))))
           \<and> (\<not> clean u \<or> \<not> clean t' \<or> cached_token w' path u = Some t')))"
proof (intro conjI impI)
  assume "tok \<noteq> []"
  then show "BWUser_init net u p tok path w = (Inr ((new_user u p)\<lparr>token := tok\<rparr>), w)"
    by (simp add: BWUser_init_def)
next
  assume a: "tok = [] \<and> cached_token w path u = Some t"
  have "username (new_user u p) = u" by (simp add: new_user_def)
  with a show "BWUser_init net u p tok path w =
      (Inr ((new_user u p)\<lparr>token := t\<rparr>), emit (Open_read path) w)"
    by (simp add: BWUser_init_def assign_cached)
next
  show "sent (emit (Open_read path) w) = sent w" by simp
next
  assume a: "tok = [] \<and> cached_token w path u = None \<and> files w path \<noteq> Some Undecodable
        \<and> net (auth_request (new_user u p)) = JObj kvs
        \<and> map_of kvs ''access_token'' = Some (JStr t')"
  have u: "username (new_user u p) = u" by (simp add: new_user_def)
  let ?w0 = "open_write path (emit (Send (auth_request (new_user u p))) (emit (Open_read path) w))"
  let ?w' = "write_file path (dump_tokens (dict_set u t' (stored_tokens w path))) ?w0"
  have "assignAccessToken (new_user u p) net path True w = (Inr t', ?w')"
    using assign_saves [of w path True "new_user u p" net kvs t'] a u by simp
  with a have run: "BWUser_init net u p tok path w = (Inr ((new_user u p)\<lparr>token := t'\<rparr>), ?w')"
    by (simp add: BWUser_init_def)
  have tr: "trace ?w' = trace w @
                [Open_read path, Send (auth_request (new_user u p)), Open_write path,
                 Write path (dump_tokens (dict_set u t' (stored_tokens w path)))]"
    by simp
  have fi: "files ?w' =
               (files w)(path \<mapsto> Text (dump_tokens (dict_set u t' (stored_tokens w path))))"
    by simp
  have "cached_token ?w' path u = Some t'" if "clean u" and "clean t'"
    using stored_after_save [OF that, of path w ?w0]
    by (simp only: cached_token_def map_of_dict_set fun_upd_same)
  then have re: "\<not> clean u \<or> \<not> clean t' \<or> cached_token ?w' path u = Some t'"
    by blast
  from run tr fi re
  show "\<exists>w'. BWUser_init net u p tok path w = (Inr ((new_user u p)\<lparr>token := t'\<rparr>), w')
           \<and> trace w' = trace w @
                [Open_read path, Send (auth_request (new_user u p)), Open_write path,
                 Write path (dump_tokens (dict_set u t' (stored_tokens w path)))]
           \<and> files w' =
               (files w)(path \<mapsto> Text (dump_tokens (dict_set u t' (stored_tokens w path))))
           \<and> (\<not> clean u \<or> \<not> clean t' \<or> cached_token w' path u = Some t')"
    by (intro exI [of _ ?w'] conjI)
qed

text \<open>
  The three cases on examples: an explicit token beside a token file, the cached
  token, and a fetch into an empty store.
\<close>

theorem token_resolution_witness:
  "BWUser_init (token_server ''fresh'') ''alice'' [] ''tok123'' ''tokens.txt'' saved_world
     = (Inr alice, saved_world)
   \<and> BWUser_init (token_server ''fresh'') ''alice'' [] [] ''tokens.txt'' saved_world
     = (Inr alice, emit (Open_read ''tokens.txt'') saved_world)
   \<and> (\<exists>w'. BWUser_init (token_server ''tok123'') ''alice'' [] [] ''tokens.txt'' world0
              = (Inr alice, w')
          \<and> trace w' = [Open_read ''tokens.txt'', Send (auth_request (new_user ''alice'' [])),
                        Open_write ''tokens.txt'',
                        Write ''tokens.txt'' (''alice'' @ [TAB] @ ''tok123'')]
          \<and> files w' ''tokens.txt'' = Some (Text (''alice'' @ [TAB] @ ''tok123'')))"
proof -
  have a: "BWUser_init (token_server ''fresh'') ''alice'' [] ''tok123'' ''tokens.txt'' saved_world
     = (Inr alice, saved_world)"
    using token_resolution [where tok = "''tok123''" and net = "token_server ''fresh''"
        and u = "''alice''" and p = "[]" and path = "''tokens.txt''" and w = saved_world]
    by (simp add: alice_def)
  have b: "BWUser_init (token_server ''fresh'') ''alice'' [] [] ''tokens.txt'' saved_world
     = (Inr alice, emit (Open_read ''tokens.txt'') saved_world)"
    using token_resolution [where tok = "[]" and net = "token_server ''fresh''"
        and u = "''alice''" and p = "[]" and path = "''tokens.txt''" and w = saved_world
        and t = "''tok123''"] cached_saved_world
    by (simp add: alice_def)
  have c: "\<exists>w'. BWUser_init (token_server ''tok123'') ''alice'' [] [] ''tokens.txt'' world0
              = (Inr alice, w')
          \<and> trace w' = [Open_read ''tokens.txt'', Send (auth_request (new_user ''alice'' [])),
                        Open_write ''tokens.txt'',
                        Write ''tokens.txt'' (''alice'' @ [TAB] @ ''tok123'')]
          \<and> files w' ''tokens.txt'' = Some (Text (''alice'' @ [TAB] @ ''tok123''))"
  proof -
    have pre: "[] = ([] :: string) \<and> cached_token world0 ''tokens.txt'' ''alice'' = None
        \<and> files world0 ''tokens.txt'' \<noteq> Some Undecodable
        \<and> token_server ''tok123'' (auth_request (new_user ''alice'' []))
            = JObj [(''access_token'', JStr ''tok123'')]
        \<and> map_of [(''access_token'', JStr ''tok123'')] ''access_token'' = Some (JStr ''tok123'')"
      by (simp add: token_server_def cached_token_def stored_tokens_def world0_def)
    have st: "stored_tokens world0 ''tokens.txt'' = []"
      by (simp add: stored_tokens_def world0_def)
    from token_resolution [where tok = "[]" and net = "token_server ''tok123''"
        and u = "''alice''" and p = "[]" and path = "''tokens.txt''" and w = world0
        and kvs = "[(''access_token'', JStr ''tok123'')]" and t' = "''tok123''"] pre
    obtain w' where w': "BWUser_init (token_server ''tok123'') ''alice'' [] [] ''tokens.txt'' world0
          = (Inr ((new_user ''alice'' [])\<lparr>token := ''tok123''\<rparr>), w')"
      "trace w' = trace world0 @
         [Open_read ''tokens.txt'', Send (auth_request (new_user ''alice'' [])),
          Open_write ''tokens.txt'',
          Write ''tokens.txt'' (dump_tokens (dict_set ''alice'' ''tok123''
                                   (stored_tokens world0 ''tokens.txt'')))]"
      "files w' = (files world0)(''tokens.txt'' \<mapsto>
          Text (dump_tokens (dict_set ''alice'' ''tok123'' (stored_tokens world0 ''tokens.txt''))))"
      by blast
    have "dump_tokens (dict_set ''alice'' ''tok123'' []) = ''alice'' @ [TAB] @ ''tok123''"
      by (simp add: dump_tokens_def)
    with w' st show ?thesis
      by (intro exI [of _ w']) (simp add: alice_def world0_def)
  qed
  from a b c show ?thesis by blast
qed

text \<open>
  Claim C1. The last case of token resolution, for a user with no explicit token
  whose token file exists and cannot be read as text: no fresh token is fetched and
  nothing is persisted. The \<^verbatim>\<open>ValueError\<close> of the read leaves the constructor, no
  request has been sent and the file is as it was.
\<close>

theorem BWUser_init_undecodable_token_file:
  "BWUser_init (token_server ''tok123'') ''alice'' ''pw'' [] ''tokens.txt''
     (world0\<lparr>files := [''tokens.txt'' \<mapsto> Undecodable]\<rparr>)
   = (Inl ValueError,
      emit (Open_read ''tokens.txt'') (world0\<lparr>files := [''tokens.txt'' \<mapsto> Undecodable]\<rparr>))
   \<and> sent (snd (BWUser_init (token_server ''tok123'') ''alice'' ''pw'' [] ''tokens.txt''
                  (world0\<lparr>files := [''tokens.txt'' \<mapsto> Undecodable]\<rparr>))) = []
   \<and> files (snd (BWUser_init (token_server ''tok123'') ''alice'' ''pw'' [] ''tokens.txt''
                  (world0\<lparr>files := [''tokens.txt'' \<mapsto> Undecodable]\<rparr>))) ''tokens.txt''
       = Some Undecodable"
  by (simp add: BWUser_init_def assignAccessToken_def world0_def sent_def emit_def)




section \<open>Project sessions\<close>







end
